theory Spec2Isabelle
  imports Main "HOL-Library.Sublist"
begin

section \<open>The parsed XML document\<close>

text \<open>
  \<open>process_file\<close> reads its input through \<open>xml.etree.ElementTree\<close>. The parser is
  outside the model: a document is the tree the parser returns. An element has a tag,
  an attribute dictionary, a text (\<open>None\<close> in Python when the element has no character
  data before its first child) and its children in document order.
\<close>

datatype element =
  Element (tag: string) (attrib: "(string \<times> string) list")
    (elem_text: "string option") (children: "element list")

text \<open>\<open>elem.get(key)\<close> and \<open>elem.get(key, default)\<close>.\<close>

definition get :: "element \<Rightarrow> string \<Rightarrow> string option" where
  "get e k = map_of (attrib e) k"

definition get_default :: "element \<Rightarrow> string \<Rightarrow> string \<Rightarrow> string" where
  "get_default e k d = (case get e k of None \<Rightarrow> d | Some v \<Rightarrow> v)"

text \<open>\<open>elem.findall('./t')\<close>: the children with tag \<open>t\<close>, in document order.\<close>

definition findall :: "element \<Rightarrow> string \<Rightarrow> element list" where
  "findall e t = filter (\<lambda>c. tag c = t) (children e)"

text \<open>\<open>elem.find('./t')\<close>: the first such child, or \<open>None\<close>.\<close>

definition find_child :: "element \<Rightarrow> string \<Rightarrow> element option" where
  "find_child e t = (case findall e t of [] \<Rightarrow> None | c # _ \<Rightarrow> Some c)"

text \<open>
  \<open>elem.find('.//t')\<close>: the first proper descendant with tag \<open>t\<close>, in document
  (pre-)order.
\<close>

fun descendants :: "element \<Rightarrow> element list" where
  "descendants (Element t a x cs) = concat (map (\<lambda>c. c # descendants c) cs)"

definition find_descendant :: "element \<Rightarrow> string \<Rightarrow> element option" where
  "find_descendant e t =
     (case filter (\<lambda>c. tag c = t) (descendants e) of [] \<Rightarrow> None | c # _ \<Rightarrow> Some c)"

text \<open>\<open>elem.findtext('./t')\<close>: \<open>None\<close> without such a child, its text or \<open>''\<close> otherwise.\<close>

definition findtext :: "element \<Rightarrow> string \<Rightarrow> string option" where
  "findtext e t =
     (case find_child e t of
        None \<Rightarrow> None
      | Some c \<Rightarrow> Some (case elem_text c of None \<Rightarrow> [] | Some s \<Rightarrow> s))"

section \<open>Python strings and dictionaries\<close>

text \<open>
  Strings are lists of characters. The characters of the model are the code points
  below 256; the operations below are Python's on those.
\<close>

definition dquote :: char where
  "dquote = CHR 0x22"

definition newline :: char where
  "newline = CHR 0x0A"

text \<open>An f-string field: \<open>None\<close> is printed as \<open>None\<close>.\<close>

definition format_opt :: "string option \<Rightarrow> string" where
  "format_opt v = (case v of None \<Rightarrow> ''None'' | Some s \<Rightarrow> s)"

text \<open>Truth value of an optional string: \<open>None\<close> and \<open>''\<close> are false.\<close>

definition truthy :: "string option \<Rightarrow> bool" where
  "truthy v = (case v of None \<Rightarrow> False | Some s \<Rightarrow> s \<noteq> [])"

text \<open>\<open>sep.join(xs)\<close>.\<close>

fun str_join :: "string \<Rightarrow> string list \<Rightarrow> string" where
  "str_join sep [] = []"
| "str_join sep [x] = x"
| "str_join sep (x # y # ys) = x @ sep @ str_join sep (y # ys)"

text \<open>\<open>s.lstrip(chars)\<close>.\<close>

definition lstrip :: "string \<Rightarrow> string \<Rightarrow> string" where
  "lstrip s chars = dropWhile (\<lambda>c. c \<in> set chars) s"

text \<open>
  \<open>s.strip()\<close>: removes leading and trailing white space, the characters for which
  \<open>str.isspace\<close> holds (below 256: 9 to 13, 28 to 32, 133 and 160).
\<close>

definition isspace :: "char \<Rightarrow> bool" where
  "isspace c = (c \<in> set [CHR 0x09, CHR 0x0A, CHR 0x0B, CHR 0x0C, CHR 0x0D,
                         CHR 0x1C, CHR 0x1D, CHR 0x1E, CHR 0x1F, CHR 0x20, CHR 0x85, CHR 0xA0])"

definition strip :: "string \<Rightarrow> string" where
  "strip s = rev (dropWhile isspace (rev (dropWhile isspace s)))"

text \<open>
  \<open>s.upper()\<close> on the letters \<open>a\<close> to \<open>z\<close>; every other character is kept. (A
  character from 128 on is mapped by Python to a character from 128 on or, for
  \<open>0xDF\<close>, to \<open>SS\<close>; no key of \<open>join_type_map\<close> below contains either.)
\<close>

definition upper_char :: "char \<Rightarrow> char" where
  "upper_char c =
     (case map_of (zip ''abcdefghijklmnopqrstuvwxyz'' ''ABCDEFGHIJKLMNOPQRSTUVWXYZ'') c of
        None \<Rightarrow> c
      | Some u \<Rightarrow> u)"

definition upper :: "string \<Rightarrow> string" where
  "upper s = map upper_char s"

text \<open>
  \<open>s.replace(old, new)\<close>: the occurrences of \<open>old\<close> are found from the left and do
  not overlap; with an empty \<open>old\<close>, \<open>new\<close> is put before every character and at
  the end.
\<close>

fun replace_from :: "string \<Rightarrow> string \<Rightarrow> string \<Rightarrow> string" where
  "replace_from [] old new = []"
| "replace_from (c # cs) old new =
     (if old \<noteq> [] \<and> prefix old (c # cs)
      then new @ replace_from (drop (length old) (c # cs)) old new
      else c # replace_from cs old new)"

definition replace :: "string \<Rightarrow> string \<Rightarrow> string \<Rightarrow> string" where
  "replace s old new =
     (if old = [] then new @ concat (map (\<lambda>c. c # new) s) else replace_from s old new)"

text \<open>\<open>str(n)\<close> for a natural number.\<close>

definition digit :: "nat \<Rightarrow> char" where
  "digit d = ''0123456789'' ! d"

fun str_nat :: "nat \<Rightarrow> string" where
  "str_nat n = (if n < 10 then [digit n] else str_nat (n div 10) @ [digit (n mod 10)])"

declare str_nat.simps [simp del]

text \<open>
  A dictionary keeps its keys in insertion order: a list of pairs with distinct keys.
  \<open>d[k] = v\<close> overwrites the value of a key in place and appends a new key;
  \<open>d.get(k, default)\<close> looks a key up; \<open>d.items()\<close> is the list itself.
\<close>

type_synonym ('k, 'v) dict = "('k \<times> 'v) list"

fun dict_set :: "('k, 'v) dict \<Rightarrow> 'k \<Rightarrow> 'v \<Rightarrow> ('k, 'v) dict" where
  "dict_set [] k v = [(k, v)]"
| "dict_set ((k', v') # d) k v = (if k' = k then (k, v) # d else (k', v') # dict_set d k v)"

definition dict_get :: "('k, 'v) dict \<Rightarrow> 'k \<Rightarrow> 'v \<Rightarrow> 'v" where
  "dict_get d k dflt = (case map_of d k of None \<Rightarrow> dflt | Some v \<Rightarrow> v)"

section \<open>\<open>replace_filter_expressions\<close>\<close>

text \<open>
  The filter string is the text of a \<open>filter\<close> element; \<open>calculated_attribs\<close> is
  \<open>None\<close> or a dictionary from attribute id to formula (both as \<open>findtext\<close> and
  \<open>get\<close> return them).
\<close>

definition default_date_func :: string where
  "default_date_func = ''TO_CHAR(CURRENT_DATE, '' @ [CHR 0x27] @ ''YYYYMMDD'' @ [CHR 0x27] @ '')''"

fun items_loop :: "string \<Rightarrow> (string \<times> string) list \<Rightarrow> string \<Rightarrow> string" where
  "items_loop alias [] filter_str = filter_str"
| "items_loop alias ((target_col, source_col) # rest) filter_str =
     (let to_find = [dquote] @ target_col @ [dquote];
          replace_with = alias @ ''.'' @ source_col
      in items_loop alias rest (replace filter_str to_find replace_with))"

definition replace_filter_expressions ::
  "string \<Rightarrow> string \<Rightarrow> (string, string) dict \<Rightarrow>
   (string option, string option) dict option \<Rightarrow> string \<Rightarrow> string" where
  "replace_filter_expressions filter_str alias target_to_source_map calculated_attribs date_func =
     (if filter_str = [] then []
      else let filter_str1 = replace filter_str ([dquote] @ ''today'' @ [dquote]) date_func
           in items_loop alias target_to_source_map filter_str1)"

section \<open>\<open>process_file\<close>\<close>

text \<open>
  Exceptions are values: calling a method on \<open>None\<close> raises \<open>AttributeError\<close>.
\<close>

datatype error = AttributeError

subsection \<open>Data sources\<close>

text \<open>
  \<open>data_sources_dict\<close>: from the id of a \<open>DataSource\<close> (\<open>None\<close> without the
  attribute) to \<open>schema.table\<close>.
\<close>

fun data_source_loop ::
  "element list \<Rightarrow> (string option, string) dict \<Rightarrow> (string option, string) dict" where
  "data_source_loop [] data_sources_dict = data_sources_dict"
| "data_source_loop (ds # rest) data_sources_dict =
     (let ds_id = get ds ''id'' in
      case find_child ds ''columnObject'' of
        None \<Rightarrow> data_source_loop rest data_sources_dict
      | Some column_obj \<Rightarrow>
          (let schema_name = get column_obj ''schemaName'';
               table_name = get column_obj ''columnObjectName''
           in data_source_loop rest
                (dict_set data_sources_dict ds_id
                   (format_opt schema_name @ ''.'' @ format_opt table_name))))"

definition data_sources_dict :: "element \<Rightarrow> (string option, string) dict" where
  "data_sources_dict root =
     (case find_child root ''dataSources'' of
        None \<Rightarrow> []
      | Some data_sources \<Rightarrow> data_source_loop (findall data_sources ''DataSource'') [])"

subsection \<open>Mappings and SELECT columns\<close>

text \<open>The loop over the \<open>mapping\<close> children of an input: pairs \<open>(source, target)\<close>.\<close>

fun mapping_loop ::
  "element list \<Rightarrow> (string \<times> string) list \<Rightarrow> (string \<times> string) list" where
  "mapping_loop [] mapping_pairs = mapping_pairs"
| "mapping_loop (mapping # rest) mapping_pairs =
     (let source_col = get mapping ''source'';
          target_col = get mapping ''target''
      in if truthy source_col \<and> truthy target_col
         then mapping_loop rest (mapping_pairs @ [(the source_col, the target_col)])
         else mapping_loop rest mapping_pairs)"

definition mapping_pairs_of :: "element \<Rightarrow> (string \<times> string) list" where
  "mapping_pairs_of inp = mapping_loop (findall inp ''mapping'') []"

definition select_column :: "string \<Rightarrow> string \<Rightarrow> string \<Rightarrow> string" where
  "select_column alias src tgt =
     (if src = tgt then alias @ ''.'' @ src else alias @ ''.'' @ src @ '' AS '' @ tgt)"

text \<open>The two nested loops of a join view that fill \<open>select_columns\<close>.\<close>

fun map_list_loop :: "string \<Rightarrow> (string \<times> string) list \<Rightarrow> string list \<Rightarrow> string list" where
  "map_list_loop alias [] select_columns = select_columns"
| "map_list_loop alias ((src, tgt) # rest) select_columns =
     map_list_loop alias rest (select_columns @ [select_column alias src tgt])"

type_synonym input_info = "string \<times> string \<times> (string \<times> string) list"

fun join_select_loop :: "input_info list \<Rightarrow> string list \<Rightarrow> string list" where
  "join_select_loop [] select_columns = select_columns"
| "join_select_loop ((alias, table_fullname, map_list) # rest) select_columns =
     join_select_loop rest (map_list_loop alias map_list select_columns)"

text \<open>
  The loop of a projection view: it fills \<open>select_columns\<close> and the dictionary
  \<open>target_to_source_map\<close> together.
\<close>

fun projection_select_loop ::
  "string \<Rightarrow> (string \<times> string) list \<Rightarrow> string list \<times> (string, string) dict \<Rightarrow>
   string list \<times> (string, string) dict" where
  "projection_select_loop alias [] acc = acc"
| "projection_select_loop alias ((src, tgt) # rest) (select_columns, target_to_source_map) =
     projection_select_loop alias rest
       (select_columns @ [select_column alias src tgt], dict_set target_to_source_map tgt src)"

subsection \<open>Join views\<close>

definition join_type_map :: "(string, string) dict" where
  "join_type_map =
     [(''INNER'', ''INNER JOIN''),
      (''LEFTOUTER'', ''LEFT JOIN''),
      (''RIGHTOUTER'', ''RIGHT JOIN''),
      (''FULLOUTER'', ''FULL JOIN'')]"

definition join_type_of :: "element \<Rightarrow> string" where
  "join_type_of calc_view =
     (let join_type_xml = upper (get_default calc_view ''joinType'' ''inner'')
      in dict_get join_type_map join_type_xml ''INNER JOIN'')"

text \<open>
  The loop over \<open>enumerate(inputs)\<close>: an input without a \<open>node\<close> (or with an empty
  one) is passed over; the alias is made from the index \<open>i\<close> of the enumeration.
\<close>

fun input_loop ::
  "(string option, string) dict \<Rightarrow> (nat \<times> element) list \<Rightarrow> input_info list \<Rightarrow>
   input_info list" where
  "input_loop dsd [] input_info = input_info"
| "input_loop dsd ((i, inp) # rest) input_info =
     (let node_ref = get inp ''node'' in
      if \<not> truthy node_ref then input_loop dsd rest input_info
      else
        (let ds_id = lstrip (the node_ref) ''#'';
             alias = ''T'' @ str_nat (i + 1);
             table_fullname = dict_get dsd (Some ds_id) ds_id;
             mapping_pairs = mapping_pairs_of inp
         in input_loop dsd rest (input_info @ [(alias, table_fullname, mapping_pairs)])))"

definition input_info_of :: "(string option, string) dict \<Rightarrow> element \<Rightarrow> input_info list" where
  "input_info_of dsd calc_view = input_loop dsd (enumerate 0 (findall calc_view ''input'')) []"

definition join_attributes_of :: "element \<Rightarrow> string option list" where
  "join_attributes_of calc_view = map (\<lambda>ja. get ja ''name'') (findall calc_view ''joinAttribute'')"

text \<open>The loop over the join attributes, for one joined input.\<close>

fun conditions_loop ::
  "string \<Rightarrow> string \<Rightarrow> string option list \<Rightarrow> string list \<Rightarrow> string list" where
  "conditions_loop base_alias current_alias [] conditions = conditions"
| "conditions_loop base_alias current_alias (ja # rest) conditions =
     conditions_loop base_alias current_alias rest
       (conditions @
        [base_alias @ ''.'' @ format_opt ja @ '' = '' @ current_alias @ ''.'' @ format_opt ja])"

text \<open>The loop \<open>for j in range(1, len(input_info))\<close>.\<close>

fun join_clauses_loop ::
  "string \<Rightarrow> string option list \<Rightarrow> string \<Rightarrow> input_info list \<Rightarrow> nat list \<Rightarrow>
   string list \<Rightarrow> string list" where
  "join_clauses_loop join_type join_attributes base_alias input_info [] join_clauses =
     join_clauses"
| "join_clauses_loop join_type join_attributes base_alias input_info (j # js) join_clauses =
     (case input_info ! j of
        (current_alias, current_table, _) \<Rightarrow>
          (let conditions = conditions_loop base_alias current_alias join_attributes [];
               on_clause = str_join '' AND '' conditions;
               join_clause =
                 join_type @ '' '' @ current_table @ '' AS '' @ current_alias @ '' ON '' @ on_clause
           in join_clauses_loop join_type join_attributes base_alias input_info js
                (join_clauses @ [join_clause])))"

text \<open>
  \<open>from_clause\<close> and \<open>join_clauses\<close> of a join view with at least one retained
  input (the caller has left the view otherwise).
\<close>

definition from_and_joins ::
  "string \<Rightarrow> string option list \<Rightarrow> input_info list \<Rightarrow> string \<times> string list" where
  "from_and_joins join_type join_attributes input_info =
     (if length input_info = 1
      then (''FROM '' @ fst (snd (input_info ! 0)) @ '' AS '' @ fst (input_info ! 0), [])
      else
        (case input_info ! 0 of
           (base_alias, base_table, _) \<Rightarrow>
             (''FROM '' @ base_table @ '' AS '' @ base_alias,
              join_clauses_loop join_type join_attributes base_alias input_info
                [1..<length input_info] [])))"

text \<open>The lines of a block, joined by newlines.\<close>

definition sql_block :: "string \<Rightarrow> string list \<Rightarrow> string \<Rightarrow> string list \<Rightarrow> string" where
  "sql_block view_id select_columns from_clause more_lines =
     str_join [newline]
       ([view_id @ '' AS ('',
         ''    SELECT'',
         ''        '' @ str_join ('','' @ [newline] @ ''        '') select_columns,
         ''    '' @ from_clause]
        @ map (\<lambda>l. ''    '' @ l) more_lines
        @ [''),''])"

text \<open>A join view gives a block, or nothing (\<open>continue\<close>) without a retained input.\<close>

definition join_view :: "(string option, string) dict \<Rightarrow> element \<Rightarrow> string \<Rightarrow> string option" where
  "join_view dsd calc_view view_id =
     (let join_type = join_type_of calc_view;
          join_attributes = join_attributes_of calc_view;
          input_info = input_info_of dsd calc_view
      in if input_info = [] then None
         else
           (let select_columns = join_select_loop input_info [];
                (from_clause, join_clauses) = from_and_joins join_type join_attributes input_info
            in Some (sql_block view_id select_columns from_clause join_clauses)))"

subsection \<open>Projection views\<close>

text \<open>The loop over the \<open>calculatedViewAttribute\<close> children.\<close>

fun calculated_loop ::
  "element list \<Rightarrow> (string option, string option) dict \<Rightarrow> (string option, string option) dict" where
  "calculated_loop [] calculated_attribs = calculated_attribs"
| "calculated_loop (cva # rest) calculated_attribs =
     (let cva_id = get cva ''id'';
          cva_formula = findtext cva ''formula''
      in calculated_loop rest (dict_set calculated_attribs cva_id cva_formula))"

definition calculated_attribs_of :: "element \<Rightarrow> (string option, string option) dict" where
  "calculated_attribs_of calc_view =
     (case find_child calc_view ''calculatedViewAttributes'' of
        None \<Rightarrow> []
      | Some calc_attrs \<Rightarrow> calculated_loop (findall calc_attrs ''calculatedViewAttribute'') [])"

text \<open>
  \<open>where_clause\<close>: empty without a \<open>filter\<close> child; \<open>filter_node.text.strip()\<close>
  raises when the text is \<open>None\<close>.
\<close>

definition where_clause_of ::
  "element \<Rightarrow> string \<Rightarrow> (string, string) dict \<Rightarrow> (string option, string option) dict \<Rightarrow>
   error + string" where
  "where_clause_of calc_view alias target_to_source_map calculated_attribs =
     (case find_child calc_view ''filter'' of
        None \<Rightarrow> Inr []
      | Some filter_node \<Rightarrow>
          (case elem_text filter_node of
             None \<Rightarrow> Inl AttributeError
           | Some t \<Rightarrow>
               (let filter_expr = strip t;
                    filter_expr_sql =
                      replace_filter_expressions filter_expr alias target_to_source_map
                        (Some calculated_attribs) default_date_func
                in if filter_expr_sql \<noteq> []
                   then Inr (''WHERE'' @ [newline] @ ''        '' @ filter_expr_sql)
                   else Inr [])))"

text \<open>
  A projection view: nothing (\<open>continue\<close>) without an \<open>input\<close> child; only the
  first input is read, and \<open>node_ref.lstrip('#')\<close> raises when it has no \<open>node\<close>.
\<close>

definition projection_view :: "element \<Rightarrow> string \<Rightarrow> error + string option" where
  "projection_view calc_view view_id =
     (let projection_inputs = findall calc_view ''input'' in
      if projection_inputs = [] then Inr None
      else
        (let proj_input = projection_inputs ! 0 in
         case get proj_input ''node'' of
           None \<Rightarrow> Inl AttributeError
         | Some node_ref \<Rightarrow>
             (let node_id = lstrip node_ref ''#'';
                  alias = ''J1'';
                  projection_mappings = mapping_pairs_of proj_input;
                  (select_columns, target_to_source_map) =
                     projection_select_loop alias projection_mappings ([], []);
                  calculated_attribs = calculated_attribs_of calc_view;
                  from_clause = ''FROM '' @ node_id @ '' AS '' @ alias
              in case where_clause_of calc_view alias target_to_source_map calculated_attribs of
                   Inl e \<Rightarrow> Inl e
                 | Inr where_clause \<Rightarrow>
                     Inr (Some (sql_block view_id select_columns from_clause
                                  (if where_clause \<noteq> [] then [where_clause] else []))))))"

subsection \<open>The loop over the calculation views\<close>

text \<open>
  The body of the loop for one \<open>calculationView\<close>: an error, or the block it appends
  to \<open>all_sql_blocks\<close> (\<open>None\<close> when it appends nothing).
\<close>

definition calc_view_block ::
  "(string option, string) dict \<Rightarrow> element \<Rightarrow> error + string option" where
  "calc_view_block dsd calc_view =
     (let xsi_type = get calc_view ''{http://www.w3.org/2001/XMLSchema-instance}type'';
          view_id = get_default calc_view ''id'' ''UnknownView''
      in if xsi_type = Some ''Calculation:JoinView'' then Inr (join_view dsd calc_view view_id)
         else if xsi_type = Some ''Calculation:ProjectionView''
         then projection_view calc_view view_id
         else Inr None)"

fun views_loop ::
  "(string option, string) dict \<Rightarrow> element list \<Rightarrow> string list \<Rightarrow> error + string list" where
  "views_loop dsd [] all_sql_blocks = Inr all_sql_blocks"
| "views_loop dsd (calc_view # rest) all_sql_blocks =
     (case calc_view_block dsd calc_view of
        Inl e \<Rightarrow> Inl e
      | Inr None \<Rightarrow> views_loop dsd rest all_sql_blocks
      | Inr (Some block) \<Rightarrow> views_loop dsd rest (all_sql_blocks @ [block]))"

text \<open>
  \<open>process_file\<close> on the root of the parsed document: an error, or the script it
  writes to the output file (\<open>None\<close> when it writes no file).
\<close>

definition process_file :: "element \<Rightarrow> error + string option" where
  "process_file root =
     (let dsd = data_sources_dict root in
      case find_descendant root ''calculationViews'' of
        None \<Rightarrow> Inr None
      | Some calculation_views_parent \<Rightarrow>
          (case views_loop dsd (findall calculation_views_parent ''calculationView'') [] of
             Inl e \<Rightarrow> Inl e
           | Inr all_sql_blocks \<Rightarrow>
               if all_sql_blocks = [] then Inr None
               else Inr (Some (''WITH'' @ [newline, newline] @
                               str_join [newline, newline] all_sql_blocks))))"

section \<open>The specification's words\<close>

text \<open>
  The join clause of the specification for one further input: the join type, the
  table and its alias, and the conjunction over the join attributes of
  \<open>alias1.attr = aliasN.attr\<close>, where \<open>alias1\<close> is the alias of the first input.
\<close>

definition star_join_clause :: "string \<Rightarrow> string \<Rightarrow> string list \<Rightarrow> input_info \<Rightarrow> string" where
  "star_join_clause join_type alias1 attrs inputN =
     (case inputN of
        (aliasN, tableN, _) \<Rightarrow>
          join_type @ '' '' @ tableN @ '' AS '' @ aliasN @ '' ON '' @
          str_join '' AND '' (map (\<lambda>attr. alias1 @ ''.'' @ attr @ '' = '' @ aliasN @ ''.'' @ attr) attrs))"

text \<open>Two strings that differ at most in the case of their letters.\<close>

definition eq_ignore_case :: "string \<Rightarrow> string \<Rightarrow> bool" where
  "eq_ignore_case s t = (upper s = upper t)"

text \<open>
  The table name the specification gives a \<open>DataSource\<close>: \<open>schemaName.columnObjectName\<close>
  of its \<open>columnObject\<close> child.
\<close>

definition spec_table_name :: "element \<Rightarrow> string option" where
  "spec_table_name ds =
     (case find_child ds ''columnObject'' of
        None \<Rightarrow> None
      | Some column_obj \<Rightarrow>
          Some (format_opt (get column_obj ''schemaName'') @ ''.'' @
                format_opt (get column_obj ''columnObjectName'')))"

text \<open>
  The \<open>DataSource\<close> elements of a document: the children of that name of the first
  \<open>dataSources\<close> child of the root.
\<close>

definition data_source_elements :: "element \<Rightarrow> element list" where
  "data_source_elements root =
     (case find_child root ''dataSources'' of
        None \<Rightarrow> []
      | Some data_sources \<Rightarrow> findall data_sources ''DataSource'')"

section \<open>Example documents\<close>

definition xsi_type :: string where
  "xsi_type = ''{http://www.w3.org/2001/XMLSchema-instance}type''"

definition mapping_elem :: "string \<Rightarrow> string \<Rightarrow> element" where
  "mapping_elem source target =
     Element ''mapping'' [(''target'', target), (''source'', source)] None []"

text \<open>A left outer join of two inputs on \<open>MANDT\<close> and \<open>KOKRS\<close>.\<close>

definition example_join :: element where
  "example_join =
     Element ''calculationView''
       [(xsi_type, ''Calculation:JoinView''), (''id'', ''Join_1''), (''joinType'', ''leftOuter'')]
       None
       [Element ''input'' [(''node'', ''#T1table'')] None
          [mapping_elem ''MANDT'' ''MANDT'', mapping_elem ''KOKRS'' ''Area''],
        Element ''input'' [(''node'', ''#T2table'')] None [mapping_elem ''KTEXT'' ''KTEXT''],
        Element ''joinAttribute'' [(''name'', ''MANDT'')] None [],
        Element ''joinAttribute'' [(''name'', ''KOKRS'')] None []]"

text \<open>A join of three inputs, the first of them without a \<open>node\<close>.\<close>

definition example_join_dropped :: element where
  "example_join_dropped =
     Element ''calculationView''
       [(xsi_type, ''Calculation:JoinView''), (''id'', ''Join_2'')]
       None
       [Element ''input'' [] None [mapping_elem ''A'' ''A''],
        Element ''input'' [(''node'', ''#CSKB'')] None [mapping_elem ''MANDT'' ''MANDT''],
        Element ''input'' [(''node'', ''#CSKU'')] None [mapping_elem ''KTEXT'' ''KTEXT''],
        Element ''joinAttribute'' [(''name'', ''MANDT'')] None []]"

text \<open>A projection of \<open>Join_1\<close> with a renamed column and a filter.\<close>

definition example_projection :: element where
  "example_projection =
     Element ''calculationView''
       [(xsi_type, ''Calculation:ProjectionView''), (''id'', ''Projection_1'')]
       None
       [Element ''input'' [(''node'', ''#Join_1'')] None
          [mapping_elem ''DATBI'' ''DATBI'', mapping_elem ''KTOPL'' ''ChartOfAccounts''],
        Element ''filter'' [] (Some ([dquote] @ ''today'' @ [dquote] @ '' <= '' @
                                     [dquote] @ ''DATBI'' @ [dquote])) []]"

text \<open>A projection whose only input has no \<open>node\<close>.\<close>

definition example_projection_no_node :: element where
  "example_projection_no_node =
     Element ''calculationView''
       [(xsi_type, ''Calculation:ProjectionView''), (''id'', ''Projection_2'')]
       None
       [Element ''input'' [] None [mapping_elem ''DATBI'' ''DATBI'']]"

text \<open>The same with a filter of white space only.\<close>

definition example_projection_no_node_blank_filter :: element where
  "example_projection_no_node_blank_filter =
     Element ''calculationView''
       [(xsi_type, ''Calculation:ProjectionView''), (''id'', ''Projection_3'')]
       None
       [Element ''input'' [] None [mapping_elem ''DATBI'' ''DATBI''],
        Element ''filter'' [] (Some ''  '') []]"

text \<open>Projections of \<open>Join_1\<close> with an empty \<open>filter\<close> element and with a blank one.\<close>

definition example_projection_empty_filter :: element where
  "example_projection_empty_filter =
     Element ''calculationView''
       [(xsi_type, ''Calculation:ProjectionView''), (''id'', ''Projection_4'')]
       None
       [Element ''input'' [(''node'', ''#Join_1'')] None [mapping_elem ''DATBI'' ''DATBI''],
        Element ''filter'' [] None []]"

definition example_projection_blank_filter :: element where
  "example_projection_blank_filter =
     Element ''calculationView''
       [(xsi_type, ''Calculation:ProjectionView''), (''id'', ''Projection_5'')]
       None
       [Element ''input'' [(''node'', ''#Join_1'')] None [mapping_elem ''DATBI'' ''DATBI''],
        Element ''filter'' [] (Some ('' '' @ [newline] @ ''  '')) []]"

text \<open>A view of a kind that \<open>process_file\<close> does not know.\<close>

definition example_union :: element where
  "example_union =
     Element ''calculationView''
       [(xsi_type, ''Calculation:UnionView''), (''id'', ''Union_1'')]
       None
       [Element ''input'' [(''node'', ''#Join_1'')] None [mapping_elem ''DATBI'' ''DATBI'']]"

text \<open>Data sources: two of them share the id \<open>CSKB\<close>, one has no \<open>columnObject\<close>.\<close>

definition example_source_first :: element where
  "example_source_first =
     Element ''DataSource'' [(''id'', ''CSKB'')] None
       [Element ''columnObject'' [(''schemaName'', ''SAPABAP1''), (''columnObjectName'', ''CSKB'')]
          None []]"

definition example_source_second :: element where
  "example_source_second =
     Element ''DataSource'' [(''id'', ''CSKB'')] None
       [Element ''columnObject'' [(''schemaName'', ''SAPABAP2''), (''columnObjectName'', ''CSKB'')]
          None []]"

definition example_source_bare :: element where
  "example_source_bare = Element ''DataSource'' [(''id'', ''CSKU'')] None []"

text \<open>A document around a list of data sources and a list of calculation views.\<close>

definition example_document :: "element list \<Rightarrow> element list \<Rightarrow> element" where
  "example_document sources views =
     Element ''Calculation:scenario'' [(''id'', ''EXAMPLE'')] None
       [Element ''dataSources'' [] None sources,
        Element ''calculationViews'' [] None views]"

text \<open>A document with the three data sources above and a join of \<open>CSKB\<close> and \<open>CSKU\<close>.\<close>

definition example_duplicate_document :: element where
  "example_duplicate_document =
     example_document [example_source_first, example_source_bare, example_source_second]
       [example_join_dropped]"

section \<open>Loops as list functions\<close>

lemma mapping_loop_acc:
  "mapping_loop ms acc =
     acc @ map (\<lambda>m. (the (get m ''source''), the (get m ''target'')))
             (filter (\<lambda>m. truthy (get m ''source'') \<and> truthy (get m ''target'')) ms)"
  by (induction ms arbitrary: acc) (simp_all add: Let_def)

lemma map_list_loop_acc:
  "map_list_loop alias pairs acc = acc @ map (\<lambda>(src, tgt). select_column alias src tgt) pairs"
  by (induction pairs arbitrary: acc) auto

lemma join_select_loop_acc:
  "join_select_loop infos acc =
     acc @ concat (map (\<lambda>(alias, table, pairs).
                          map (\<lambda>(src, tgt). select_column alias src tgt) pairs) infos)"
  by (induction infos arbitrary: acc) (auto simp: map_list_loop_acc)

lemma projection_select_loop_fst:
  "fst (projection_select_loop alias pairs (cols, d)) =
     cols @ map (\<lambda>(src, tgt). select_column alias src tgt) pairs"
  by (induction pairs arbitrary: cols d) auto

lemma projection_select_loop_snd:
  "snd (projection_select_loop alias pairs (cols, d)) =
     foldl (\<lambda>d (src, tgt). dict_set d tgt src) d pairs"
  by (induction pairs arbitrary: cols d) auto

lemma conditions_loop_acc:
  "conditions_loop b c jas acc =
     acc @ map (\<lambda>ja. b @ ''.'' @ format_opt ja @ '' = '' @ c @ ''.'' @ format_opt ja) jas"
  by (induction jas arbitrary: acc) auto

lemma join_clauses_loop_acc:
  "join_clauses_loop jt jas b infos js acc =
     acc @ map (\<lambda>j. star_join_clause jt b (map format_opt jas) (infos ! j)) js"
  by (induction js arbitrary: acc)
     (auto simp: Let_def star_join_clause_def conditions_loop_acc comp_def split: prod.splits)

lemma map_nth_tail: "map (\<lambda>j. f (xs ! j)) [1..<length xs] = map f (tl xs)"
proof (cases xs)
  case Nil
  then show ?thesis by simp
next
  case (Cons x ys)
  have "[Suc 0..<Suc (length ys)] = map Suc [0..<length ys]"
    by (simp only: map_Suc_upt)
  then have "map (\<lambda>j. f ((x # ys) ! j)) [1..<length (x # ys)] =
             map (\<lambda>j. f (ys ! j)) [0..<length ys]"
    by (simp add: comp_def del: upt_Suc)
  also have "\<dots> = map f ys"
    by (rule nth_equalityI) simp_all
  finally show ?thesis using Cons by simp
qed

lemma views_loop_append:
  "views_loop dsd (xs @ ys) acc =
     (case views_loop dsd xs acc of Inl e \<Rightarrow> Inl e | Inr acc' \<Rightarrow> views_loop dsd ys acc')"
  by (induction xs arbitrary: acc) (auto split: sum.splits option.splits)

lemma input_loop_acc:
  "input_loop dsd ies acc =
     acc @ map (\<lambda>(i, inp).
                  (''T'' @ str_nat (i + 1),
                   dict_get dsd (Some (lstrip (the (get inp ''node'')) ''#''))
                     (lstrip (the (get inp ''node'')) ''#''),
                   mapping_pairs_of inp))
             (filter (\<lambda>(i, inp). truthy (get inp ''node'')) ies)"
  by (induction ies arbitrary: acc) (auto simp: Let_def)

lemma projection_view_unfolded:
  assumes "findall calc_view ''input'' = proj_input # more_inputs"
      and "get proj_input ''node'' = Some node_ref"
  shows "projection_view calc_view view_id =
     (case where_clause_of calc_view ''J1''
             (snd (projection_select_loop ''J1'' (mapping_pairs_of proj_input) ([], [])))
             (calculated_attribs_of calc_view) of
        Inl e \<Rightarrow> Inl e
      | Inr where_clause \<Rightarrow>
          Inr (Some (sql_block view_id
                 (fst (projection_select_loop ''J1'' (mapping_pairs_of proj_input) ([], [])))
                 (''FROM '' @ lstrip node_ref ''#'' @ '' AS J1'')
                 (if where_clause \<noteq> [] then [where_clause] else []))))"
  using assms by (simp add: projection_view_def Let_def case_prod_beta split: sum.splits)

lemma process_file_views:
  "find_descendant root ''calculationViews'' = Some parent \<Longrightarrow>
   process_file root =
     (case views_loop (data_sources_dict root) (findall parent ''calculationView'') [] of
        Inl e \<Rightarrow> Inl e
      | Inr all_sql_blocks \<Rightarrow>
          if all_sql_blocks = [] then Inr None
          else Inr (Some (''WITH'' @ [newline, newline] @
                          str_join [newline, newline] all_sql_blocks)))"
  by (simp add: process_file_def Let_def)

lemma example_document_views:
  "find_descendant (example_document [] views) ''calculationViews'' =
     Some (Element ''calculationViews'' [] None views)"
  by (simp add: example_document_def find_descendant_def)

lemma example_document_sources: "data_sources_dict (example_document [] views) = []"
  by (simp add: example_document_def data_sources_dict_def find_child_def findall_def)

section \<open>The FROM and JOIN clauses of a join view\<close>

lemma from_and_joins_star:
  "from_and_joins jt jas ((alias1, table1, maps1) # rest) =
     (''FROM '' @ table1 @ '' AS '' @ alias1,
      map (star_join_clause jt alias1 (map format_opt jas)) rest)"
proof (cases rest)
  case Nil
  then show ?thesis by (simp add: from_and_joins_def)
next
  case (Cons r rs)
  let ?infos = "(alias1, table1, maps1) # rest"
  have "map (\<lambda>j. star_join_clause jt alias1 (map format_opt jas) (?infos ! j)) [1..<length ?infos]
          = map (star_join_clause jt alias1 (map format_opt jas)) (tl ?infos)"
    by (rule map_nth_tail)
  then show ?thesis using Cons
    by (simp add: from_and_joins_def join_clauses_loop_acc del: upt_Suc)
qed

lemma example_join_input_info:
  "input_info_of [] example_join =
     [(''T1'', ''T1table'', [(''MANDT'', ''MANDT''), (''KOKRS'', ''Area'')]),
      (''T2'', ''T2table'', [(''KTEXT'', ''KTEXT'')])]"
  by (simp add: example_join_def mapping_elem_def xsi_type_def input_info_of_def findall_def
      get_def enumerate_eq_zip truthy_def lstrip_def str_nat.simps digit_def dict_get_def
      mapping_pairs_of_def)

lemma example_join_type: "join_type_of example_join = ''LEFT JOIN''"
  by (simp add: example_join_def xsi_type_def join_type_of_def get_default_def get_def
      upper_def upper_char_def dict_get_def join_type_map_def)

lemma example_join_attributes:
  "join_attributes_of example_join = [Some ''MANDT'', Some ''KOKRS'']"
  by (simp add: example_join_def xsi_type_def join_attributes_of_def findall_def get_def
      mapping_elem_def)

text \<open>
  C1. A join view with retained inputs \<open>(alias1, table1, _) # rest\<close> has the FROM
  clause \<open>FROM table1 AS alias1\<close> and, for each further retained input in order, one
  clause \<open>joinType tableN AS aliasN ON cond\<close>, where \<open>cond\<close> joins with \<open>AND\<close>, over
  the join attribute names in document order, \<open>alias1.attr = aliasN.attr\<close>: every
  condition compares with the first input, never with the one before. The block of
  the view holds the FROM clause and the JOIN clauses as lines of their own, each
  after four spaces.
\<close>

theorem join_from_clause_star_topology:
  assumes "input_info_of dsd calc_view = (alias1, table1, maps1) # rest"
  shows "from_and_joins (join_type_of calc_view) (join_attributes_of calc_view)
           (input_info_of dsd calc_view) =
           (''FROM '' @ table1 @ '' AS '' @ alias1,
            map (star_join_clause (join_type_of calc_view) alias1
                   (map format_opt (join_attributes_of calc_view))) rest)
       \<and> join_view dsd calc_view view_id =
           Some (str_join [newline]
             ([view_id @ '' AS ('',
               ''    SELECT'',
               ''        '' @ str_join ('','' @ [newline] @ ''        '')
                                (join_select_loop (input_info_of dsd calc_view) []),
               ''    FROM '' @ table1 @ '' AS '' @ alias1]
              @ map (\<lambda>clause. ''    '' @ clause)
                  (map (star_join_clause (join_type_of calc_view) alias1
                          (map format_opt (join_attributes_of calc_view))) rest)
              @ [''),'']))"
  using assms by (simp add: join_view_def from_and_joins_star sql_block_def)

theorem join_from_clause_star_topology_witness:
  "from_and_joins (join_type_of example_join) (join_attributes_of example_join)
     (input_info_of [] example_join) =
     (''FROM T1table AS T1'',
      [''LEFT JOIN T2table AS T2 ON T1.MANDT = T2.MANDT AND T1.KOKRS = T2.KOKRS''])
   \<and> join_view [] example_join ''Join_1'' =
       Some (str_join [newline]
         [''Join_1 AS ('',
          ''    SELECT'',
          ''        T1.MANDT,'' @ [newline] @ ''        T1.KOKRS AS Area,'' @ [newline] @
          ''        T2.KTEXT'',
          ''    FROM T1table AS T1'',
          ''    LEFT JOIN T2table AS T2 ON T1.MANDT = T2.MANDT AND T1.KOKRS = T2.KOKRS'',
          ''),''])"
  using join_from_clause_star_topology [OF example_join_input_info, of "''Join_1''"]
  by (simp add: example_join_input_info example_join_type example_join_attributes
      star_join_clause_def format_opt_def join_select_loop_acc select_column_def)

section \<open>The filter rewriter\<close>

text \<open>The model of \<open>str.replace\<close> replaces literal occurrences and nothing else.\<close>

lemma replace_from_unchanged: "\<not> sublist old s \<Longrightarrow> replace_from s old new = s"
proof (induction s)
  case Nil
  then show ?case by simp
next
  case (Cons c cs)
  then have "\<not> prefix old (c # cs)" using prefix_imp_sublist by blast
  moreover have "\<not> sublist old cs" using Cons.prems by (auto simp: sublist_Cons_right)
  ultimately show ?case using Cons.IH by simp
qed

lemma replace_unchanged: "\<not> sublist old s \<Longrightarrow> replace s old new = s"
  by (cases "old = []") (simp_all add: replace_def replace_from_unchanged)

lemma replace_Nil: "old \<noteq> [] \<Longrightarrow> replace [] old new = []"
  by (simp add: replace_def)

text \<open>
  Up to and with the first occurrence of \<open>old\<close>: the text before it is kept, the
  occurrence becomes \<open>new\<close>, and the rest is rewritten in the same way.
\<close>

lemma replace_from_first:
  "old \<noteq> [] \<Longrightarrow> \<not> sublist old (u @ butlast old) \<Longrightarrow>
   replace_from (u @ old @ v) old new = u @ new @ replace_from v old new"
proof (induction u)
  case Nil
  then obtain c cs where "old = c # cs" by (cases old) auto
  then show ?case by simp
next
  case (Cons a u)
  have np: "\<not> prefix old (a # u @ old @ v)"
  proof
    assume p: "prefix old (a # u @ old @ v)"
    have split: "a # u @ old @ v = ((a # u) @ butlast old) @ (last old # v)"
      using Cons.prems(1) by simp
    have "prefix old ((a # u) @ butlast old)"
    proof -
      from p split have "prefix old (((a # u) @ butlast old) @ (last old # v))" by simp
      then consider "prefix old ((a # u) @ butlast old)"
        | us where "old = ((a # u) @ butlast old) @ us"
        unfolding prefix_append by blast
      then show ?thesis
      proof cases
        case 1
        then show ?thesis .
      next
        case 2
        then have "length old = length ((a # u) @ butlast old) + length us"
          by (metis length_append)
        moreover have "length (butlast old) = length old - 1" by simp
        moreover have "length old \<noteq> 0" using Cons.prems(1) by simp
        ultimately have "us = []" by simp
        with 2 show ?thesis by simp
      qed
    qed
    then have "sublist old ((a # u) @ butlast old)" by (rule prefix_imp_sublist)
    with Cons.prems(2) show False by simp
  qed
  have "\<not> sublist old (u @ butlast old)" using Cons.prems(2) by (auto simp: sublist_Cons_right)
  with Cons.IH Cons.prems(1) np show ?case by simp
qed

lemma replace_first:
  "old \<noteq> [] \<Longrightarrow> \<not> sublist old (u @ butlast old) \<Longrightarrow>
   replace (u @ old @ v) old new = u @ new @ replace v old new"
  by (simp add: replace_def replace_from_first)

lemma items_loop_foldl:
  "items_loop alias m s =
     foldl (\<lambda>s (target, source).
              replace s ([dquote] @ target @ [dquote]) (alias @ ''.'' @ source)) s m"
  by (induction m arbitrary: s) (auto simp: Let_def)

lemma items_loop_Nil: "items_loop alias m [] = []"
  by (induction m) (auto simp: Let_def replace_Nil)

lemma items_loop_unchanged:
  "\<forall>(target, source) \<in> set m. \<not> sublist ([dquote] @ target @ [dquote]) s \<Longrightarrow>
   items_loop alias m s = s"
  by (induction m arbitrary: s) (auto simp: Let_def replace_unchanged)

text \<open>
  C3. The filter rewriter first replaces every occurrence of the quoted token
  \<open>"today"\<close> by the date function, then, for each pair \<open>(target, source)\<close> of the
  dictionary in insertion order, every occurrence of the quoted \<open>"target"\<close> by
  \<open>alias.source\<close>, each step on the result of the one before. A filter string in
  which none of these quoted tokens occurs is returned unchanged.
\<close>

theorem filter_rewrite_steps:
  "replace_filter_expressions filter_str alias target_to_source_map calculated_attribs date_func =
     foldl (\<lambda>s (target, source).
              replace s ([dquote] @ target @ [dquote]) (alias @ ''.'' @ source))
       (replace filter_str ([dquote] @ ''today'' @ [dquote]) date_func)
       target_to_source_map
   \<and> (\<not> sublist ([dquote] @ ''today'' @ [dquote]) filter_str \<and>
      (\<forall>(target, source) \<in> set target_to_source_map.
          \<not> sublist ([dquote] @ target @ [dquote]) filter_str) \<longrightarrow>
      replace_filter_expressions filter_str alias target_to_source_map calculated_attribs date_func =
        filter_str)"
proof (intro conjI impI)
  show "replace_filter_expressions filter_str alias target_to_source_map calculated_attribs date_func =
     foldl (\<lambda>s (target, source).
              replace s ([dquote] @ target @ [dquote]) (alias @ ''.'' @ source))
       (replace filter_str ([dquote] @ ''today'' @ [dquote]) date_func)
       target_to_source_map"
  proof (cases "filter_str = []")
    case True
    have "items_loop alias target_to_source_map [] = []" by (rule items_loop_Nil)
    then show ?thesis using True
      by (simp add: replace_filter_expressions_def replace_Nil items_loop_foldl)
  next
    case False
    then show ?thesis
      by (simp add: replace_filter_expressions_def items_loop_foldl)
  qed
next
  assume h: "\<not> sublist ([dquote] @ ''today'' @ [dquote]) filter_str \<and>
      (\<forall>(target, source) \<in> set target_to_source_map.
          \<not> sublist ([dquote] @ target @ [dquote]) filter_str)"
  then have "replace filter_str ([dquote] @ ''today'' @ [dquote]) date_func = filter_str"
    by (simp add: replace_unchanged)
  moreover have "items_loop alias target_to_source_map filter_str = filter_str"
    using h by (simp add: items_loop_unchanged)
  ultimately show "replace_filter_expressions filter_str alias target_to_source_map
                     calculated_attribs date_func = filter_str"
    by (simp add: replace_filter_expressions_def)
qed

theorem filter_rewrite_steps_witness:
  \<open>replace_filter_expressions ''"today" <= "DATBI"'' ''J1'' [(''DATBI'', ''DATBI'')] None
      default_date_func = ''TO_CHAR(CURRENT_DATE, 'YYYYMMDD') <= J1.DATBI''
   \<and> replace_filter_expressions ''"KOKRS" = 1000'' ''J1'' [(''DATBI'', ''DATBI'')] None
      default_date_func = ''"KOKRS" = 1000''\<close>
proof
  show \<open>replace_filter_expressions ''"today" <= "DATBI"'' ''J1'' [(''DATBI'', ''DATBI'')] None
      default_date_func = ''TO_CHAR(CURRENT_DATE, 'YYYYMMDD') <= J1.DATBI''\<close>
    using filter_rewrite_steps [THEN conjunct1,
        of \<open>''"today" <= "DATBI"''\<close> "''J1''" "[(''DATBI'', ''DATBI'')]" None default_date_func]
    by (simp add: replace_def dquote_def default_date_func_def)
next
  have "\<not> sublist ([dquote] @ ''today'' @ [dquote]) ([dquote] @ ''KOKRS'' @ [dquote] @ '' = 1000'')"
    by (simp add: dquote_def sublist_Cons_right)
  moreover have "\<not> sublist ([dquote] @ ''DATBI'' @ [dquote]) ([dquote] @ ''KOKRS'' @ [dquote] @ '' = 1000'')"
    by (simp add: dquote_def sublist_Cons_right)
  ultimately show \<open>replace_filter_expressions ''"KOKRS" = 1000'' ''J1'' [(''DATBI'', ''DATBI'')] None
      default_date_func = ''"KOKRS" = 1000''\<close>
    using filter_rewrite_steps [THEN conjunct2,
        of \<open>''"KOKRS" = 1000''\<close> "[(''DATBI'', ''DATBI'')]" "''J1''" None default_date_func]
    by (simp add: dquote_def)
qed

text \<open>
  C9. The result of \<open>replace_filter_expressions\<close> does not depend on
  \<open>calculated_attribs\<close>: any two values of it, \<open>None\<close> or a dictionary, give the
  same string.
\<close>

theorem calculated_attribs_ignored:
  "replace_filter_expressions filter_str alias target_to_source_map calculated_attribs date_func =
   replace_filter_expressions filter_str alias target_to_source_map calculated_attribs' date_func"
  by (simp add: replace_filter_expressions_def)

theorem calculated_attribs_ignored_witness:
  \<open>replace_filter_expressions ''"today" <= "DATBI"'' ''J1'' [(''DATBI'', ''DATBI'')] None
      default_date_func =
    replace_filter_expressions ''"today" <= "DATBI"'' ''J1'' [(''DATBI'', ''DATBI'')]
      (Some [(Some ''today'', Some ''now()''), (None, None)]) default_date_func\<close>
  by (rule calculated_attribs_ignored)

section \<open>The join type\<close>

lemma upper_keys:
  "upper ''INNER'' = ''INNER''" "upper ''LEFTOUTER'' = ''LEFTOUTER''"
  "upper ''RIGHTOUTER'' = ''RIGHTOUTER''" "upper ''FULLOUTER'' = ''FULLOUTER''"
  by (simp_all add: upper_def upper_char_def)

text \<open>
  C5. The \<open>joinType\<close> attribute of a join view, \<open>inner\<close> when it is absent, is compared
  without regard to case with the keys of the table: \<open>INNER\<close> gives \<open>INNER JOIN\<close>,
  \<open>LEFTOUTER\<close> gives \<open>LEFT JOIN\<close>, \<open>RIGHTOUTER\<close> gives \<open>RIGHT JOIN\<close>, \<open>FULLOUTER\<close>
  gives \<open>FULL JOIN\<close>, and every other value gives \<open>INNER JOIN\<close>.
\<close>

theorem join_type_lookup:
  "join_type_of calc_view =
     (let given = (case get calc_view ''joinType'' of None \<Rightarrow> ''inner'' | Some v \<Rightarrow> v) in
      if eq_ignore_case given ''INNER'' then ''INNER JOIN''
      else if eq_ignore_case given ''LEFTOUTER'' then ''LEFT JOIN''
      else if eq_ignore_case given ''RIGHTOUTER'' then ''RIGHT JOIN''
      else if eq_ignore_case given ''FULLOUTER'' then ''FULL JOIN''
      else ''INNER JOIN'')"
  by (simp add: join_type_of_def get_default_def eq_ignore_case_def upper_keys dict_get_def
      join_type_map_def Let_def)

theorem join_type_lookup_witness:
  "join_type_of (Element ''calculationView'' [(''joinType'', ''bogus'')] None []) = ''INNER JOIN''
   \<and> join_type_of (Element ''calculationView'' [(''joinType'', ''LeftOuter'')] None []) = ''LEFT JOIN''
   \<and> join_type_of (Element ''calculationView'' [(''joinType'', ''RIGHTOUTER'')] None []) = ''RIGHT JOIN''
   \<and> join_type_of (Element ''calculationView'' [(''joinType'', ''fullouter'')] None []) = ''FULL JOIN''
   \<and> join_type_of (Element ''calculationView'' [] None []) = ''INNER JOIN''"
  using join_type_lookup [of "Element ''calculationView'' [(''joinType'', ''bogus'')] None []"]
    join_type_lookup [of "Element ''calculationView'' [(''joinType'', ''LeftOuter'')] None []"]
    join_type_lookup [of "Element ''calculationView'' [(''joinType'', ''RIGHTOUTER'')] None []"]
    join_type_lookup [of "Element ''calculationView'' [(''joinType'', ''fullouter'')] None []"]
    join_type_lookup [of "Element ''calculationView'' [] None []"]
  by (simp add: get_def eq_ignore_case_def upper_def upper_char_def)

section \<open>The SELECT list\<close>

lemma example_projection_pairs:
  "mapping_pairs_of (hd (findall example_projection ''input'')) =
     [(''DATBI'', ''DATBI''), (''KTOPL'', ''ChartOfAccounts'')]"
  by (simp add: example_projection_def findall_def mapping_elem_def get_def truthy_def
      mapping_pairs_of_def)

lemma join_select_of_inputs:
  "join_select_loop (input_info_of dsd calc_view) [] =
     concat (map (\<lambda>(i, inp).
                    map (\<lambda>(source, target).
                           if source = target then ''T'' @ str_nat (i + 1) @ ''.'' @ source
                           else ''T'' @ str_nat (i + 1) @ ''.'' @ source @ '' AS '' @ target)
                      (mapping_pairs_of inp))
               (filter (\<lambda>(i, inp). truthy (get inp ''node''))
                  (enumerate 0 (findall calc_view ''input''))))"
proof -
  have "join_select_loop (input_info_of dsd calc_view) [] =
     concat (map (\<lambda>(i, inp).
                    map (\<lambda>(source, target). select_column (''T'' @ str_nat (i + 1)) source target)
                      (mapping_pairs_of inp))
               (filter (\<lambda>(i, inp). truthy (get inp ''node''))
                  (enumerate 0 (findall calc_view ''input''))))"
    by (simp add: join_select_loop_acc input_info_of_def input_loop_acc comp_def case_prod_unfold)
  then show ?thesis by (simp add: select_column_def cong: if_cong)
qed

lemma join_view_block:
  "join_view dsd calc_view view_id =
     (if input_info_of dsd calc_view = [] then None
      else Some (str_join [newline]
        ([view_id @ '' AS ('',
          ''    SELECT'',
          ''        '' @ str_join ('','' @ [newline] @ ''        '')
             (join_select_loop (input_info_of dsd calc_view) []),
          ''    '' @ fst (from_and_joins (join_type_of calc_view) (join_attributes_of calc_view)
                          (input_info_of dsd calc_view))]
         @ map (\<lambda>clause. ''    '' @ clause)
             (snd (from_and_joins (join_type_of calc_view) (join_attributes_of calc_view)
                     (input_info_of dsd calc_view)))
         @ [''),''])))"
  by (simp add: join_view_def sql_block_def Let_def case_prod_beta)

lemma projection_view_block:
  "projection_view calc_view view_id =
     (case findall calc_view ''input'' of
        [] \<Rightarrow> Inr None
      | proj_input # more_inputs \<Rightarrow>
          (case get proj_input ''node'' of
             None \<Rightarrow> Inl AttributeError
           | Some node_ref \<Rightarrow>
               (case where_clause_of calc_view ''J1''
                       (foldl (\<lambda>d (source, target). dict_set d target source) []
                          (mapping_pairs_of proj_input))
                       (calculated_attribs_of calc_view) of
                  Inl e \<Rightarrow> Inl e
                | Inr where_clause \<Rightarrow>
                    Inr (Some (str_join [newline]
                      ([view_id @ '' AS ('',
                        ''    SELECT'',
                        ''        '' @ str_join ('','' @ [newline] @ ''        '')
                           (map (\<lambda>(source, target).
                                   if source = target then ''J1'' @ ''.'' @ source
                                   else ''J1'' @ ''.'' @ source @ '' AS '' @ target)
                              (mapping_pairs_of proj_input)),
                        ''    FROM '' @ lstrip node_ref ''#'' @ '' AS J1'']
                       @ (if where_clause \<noteq> [] then [''    '' @ where_clause] else [])
                       @ [''),'']))))))"
proof (cases "findall calc_view ''input''")
  case Nil
  then show ?thesis by (simp add: projection_view_def)
next
  case (Cons proj_input more_inputs)
  show ?thesis
  proof (cases "get proj_input ''node''")
    case None
    then show ?thesis using Cons by (simp add: projection_view_def Let_def)
  next
    case (Some node_ref)
    show ?thesis
      using projection_view_unfolded [OF Cons Some, of view_id] Cons Some
      by (simp add: projection_select_loop_fst projection_select_loop_snd sql_block_def
          select_column_def split: sum.splits)
  qed
qed

lemma example_join_inputs:
  "findall example_join ''input'' =
     [Element ''input'' [(''node'', ''#T1table'')] None
        [mapping_elem ''MANDT'' ''MANDT'', mapping_elem ''KOKRS'' ''Area''],
      Element ''input'' [(''node'', ''#T2table'')] None [mapping_elem ''KTEXT'' ''KTEXT'']]"
  by (simp add: example_join_def findall_def mapping_elem_def)

lemma example_where_clause:
  "where_clause_of example_projection ''J1''
     [(''DATBI'', ''DATBI''), (''ChartOfAccounts'', ''KTOPL'')] c =
     Inr (''WHERE'' @ [newline] @ ''        '' @ default_date_func @ '' <= J1.DATBI'')"
  by (simp add: where_clause_of_def example_projection_def find_child_def findall_def
      mapping_elem_def strip_def isspace_def dquote_def replace_filter_expressions_def
      replace_def default_date_func_def)

text \<open>
  C6. A pair \<open>(source, target)\<close> gives the SELECT entry \<open>alias.source\<close> when both are
  equal and \<open>alias.source AS target\<close> otherwise. The block that a join view emits has,
  as its SELECT list, the entries of the mapping pairs of its retained inputs, the
  inputs in document order and the pairs of each input in their order, under the
  alias of the input; the block that a projection view emits has the entries of the
  mapping pairs of its first input, in their order, under the alias \<open>J1\<close>. The mapping
  pairs of an input are those of its \<open>mapping\<close> children that have a source and a
  target, in document order.
\<close>

theorem select_list_entries:
  "join_select_loop input_info [] =
     concat (map (\<lambda>(alias, table, pairs).
                    map (\<lambda>(source, target).
                           if source = target then alias @ ''.'' @ source
                           else alias @ ''.'' @ source @ '' AS '' @ target) pairs) input_info)
   \<and> fst (projection_select_loop alias pairs ([], [])) =
       map (\<lambda>(source, target).
              if source = target then alias @ ''.'' @ source
              else alias @ ''.'' @ source @ '' AS '' @ target) pairs
   \<and> mapping_pairs_of inp =
       map (\<lambda>m. (the (get m ''source''), the (get m ''target'')))
         (filter (\<lambda>m. truthy (get m ''source'') \<and> truthy (get m ''target''))
            (findall inp ''mapping''))
   \<and> join_view dsd calc_view view_id =
       (if input_info_of dsd calc_view = [] then None
        else Some (str_join [newline]
          ([view_id @ '' AS ('',
            ''    SELECT'',
            ''        '' @ str_join ('','' @ [newline] @ ''        '')
               (concat (map (\<lambda>(i, inp).
                    map (\<lambda>(source, target).
                           if source = target then ''T'' @ str_nat (i + 1) @ ''.'' @ source
                           else ''T'' @ str_nat (i + 1) @ ''.'' @ source @ '' AS '' @ target)
                      (mapping_pairs_of inp))
                  (filter (\<lambda>(i, inp). truthy (get inp ''node''))
                     (enumerate 0 (findall calc_view ''input''))))),
            ''    '' @ fst (from_and_joins (join_type_of calc_view) (join_attributes_of calc_view)
                            (input_info_of dsd calc_view))]
           @ map (\<lambda>clause. ''    '' @ clause)
               (snd (from_and_joins (join_type_of calc_view) (join_attributes_of calc_view)
                       (input_info_of dsd calc_view)))
           @ [''),''])))
   \<and> projection_view calc_view' view_id' =
     (case findall calc_view' ''input'' of
        [] \<Rightarrow> Inr None
      | proj_input # more_inputs \<Rightarrow>
          (case get proj_input ''node'' of
             None \<Rightarrow> Inl AttributeError
           | Some node_ref \<Rightarrow>
               (case where_clause_of calc_view' ''J1''
                       (foldl (\<lambda>d (source, target). dict_set d target source) []
                          (mapping_pairs_of proj_input))
                       (calculated_attribs_of calc_view') of
                  Inl e \<Rightarrow> Inl e
                | Inr where_clause \<Rightarrow>
                    Inr (Some (str_join [newline]
                      ([view_id' @ '' AS ('',
                        ''    SELECT'',
                        ''        '' @ str_join ('','' @ [newline] @ ''        '')
                           (map (\<lambda>(source, target).
                                   if source = target then ''J1'' @ ''.'' @ source
                                   else ''J1'' @ ''.'' @ source @ '' AS '' @ target)
                              (mapping_pairs_of proj_input)),
                        ''    FROM '' @ lstrip node_ref ''#'' @ '' AS J1'']
                       @ (if where_clause \<noteq> [] then [''    '' @ where_clause] else [])
                       @ [''),'']))))))"
proof (intro conjI)
  show "join_select_loop input_info [] =
     concat (map (\<lambda>(alias, table, pairs).
                    map (\<lambda>(source, target).
                           if source = target then alias @ ''.'' @ source
                           else alias @ ''.'' @ source @ '' AS '' @ target) pairs) input_info)"
    by (simp add: join_select_loop_acc select_column_def)
  show "fst (projection_select_loop alias pairs ([], [])) =
       map (\<lambda>(source, target).
              if source = target then alias @ ''.'' @ source
              else alias @ ''.'' @ source @ '' AS '' @ target) pairs"
    by (simp add: projection_select_loop_fst select_column_def)
  show "mapping_pairs_of inp =
       map (\<lambda>m. (the (get m ''source''), the (get m ''target'')))
         (filter (\<lambda>m. truthy (get m ''source'') \<and> truthy (get m ''target''))
            (findall inp ''mapping''))"
    by (simp add: mapping_pairs_of_def mapping_loop_acc)
qed (simp_all only: join_view_block join_select_of_inputs projection_view_block)

theorem select_list_entries_witness:
  "join_select_loop (input_info_of [] example_join) [] =
     [''T1.MANDT'', ''T1.KOKRS AS Area'', ''T2.KTEXT'']
   \<and> fst (projection_select_loop ''J1''
            (mapping_pairs_of (hd (findall example_projection ''input''))) ([], [])) =
       [''J1.DATBI'', ''J1.KTOPL AS ChartOfAccounts'']
   \<and> join_view [] example_join ''Join_1'' =
       Some (str_join [newline]
         [''Join_1 AS ('',
          ''    SELECT'',
          ''        T1.MANDT,'' @ [newline] @ ''        T1.KOKRS AS Area,'' @ [newline] @
          ''        T2.KTEXT'',
          ''    FROM T1table AS T1'',
          ''    LEFT JOIN T2table AS T2 ON T1.MANDT = T2.MANDT AND T1.KOKRS = T2.KOKRS'',
          ''),''])
   \<and> projection_view example_projection ''Projection_1'' =
       Inr (Some (str_join [newline]
         [''Projection_1 AS ('',
          ''    SELECT'',
          ''        J1.DATBI,'' @ [newline] @ ''        J1.KTOPL AS ChartOfAccounts'',
          ''    FROM Join_1 AS J1'',
          ''    WHERE'' @ [newline] @ ''        '' @ default_date_func @ '' <= J1.DATBI'',
          ''),'']))"
proof -
  note entries = select_list_entries [of "input_info_of [] example_join" "''J1''"
      "mapping_pairs_of (hd (findall example_projection ''input''))"
      "hd (findall example_projection ''input'')" "[]" example_join "''Join_1''"
      example_projection "''Projection_1''"]
  have join: "join_select_loop (input_info_of [] example_join) [] =
     concat (map (\<lambda>(alias, table, pairs).
                    map (\<lambda>(source, target).
                           if source = target then alias @ ''.'' @ source
                           else alias @ ''.'' @ source @ '' AS '' @ target) pairs)
               (input_info_of [] example_join))"
    using entries by (rule conjunct1)
  have proj: "fst (projection_select_loop ''J1''
                (mapping_pairs_of (hd (findall example_projection ''input''))) ([], [])) =
       map (\<lambda>(source, target).
              if source = target then ''J1'' @ ''.'' @ source
              else ''J1'' @ ''.'' @ source @ '' AS '' @ target)
         (mapping_pairs_of (hd (findall example_projection ''input'')))"
    using entries by blast
  have lists: "join_select_loop (input_info_of [] example_join) [] =
     [''T1.MANDT'', ''T1.KOKRS AS Area'', ''T2.KTEXT'']
   \<and> fst (projection_select_loop ''J1''
            (mapping_pairs_of (hd (findall example_projection ''input''))) ([], [])) =
       [''J1.DATBI'', ''J1.KTOPL AS ChartOfAccounts'']"
    unfolding join proj by (simp add: example_join_input_info example_projection_pairs)
  have pairs1: "mapping_pairs_of (Element ''input'' [(''node'', ''#T1table'')] None
        [mapping_elem ''MANDT'' ''MANDT'', mapping_elem ''KOKRS'' ''Area'']) =
        [(''MANDT'', ''MANDT''), (''KOKRS'', ''Area'')]"
    and pairs2: "mapping_pairs_of (Element ''input'' [(''node'', ''#T2table'')] None
        [mapping_elem ''KTEXT'' ''KTEXT'']) = [(''KTEXT'', ''KTEXT'')]"
    by (simp_all add: mapping_pairs_of_def findall_def mapping_elem_def get_def truthy_def)
  have join_block: "join_view [] example_join ''Join_1'' =
       Some (str_join [newline]
         [''Join_1 AS ('',
          ''    SELECT'',
          ''        T1.MANDT,'' @ [newline] @ ''        T1.KOKRS AS Area,'' @ [newline] @
          ''        T2.KTEXT'',
          ''    FROM T1table AS T1'',
          ''    LEFT JOIN T2table AS T2 ON T1.MANDT = T2.MANDT AND T1.KOKRS = T2.KOKRS'',
          ''),''])"
  proof -
    from entries have "join_view [] example_join ''Join_1'' =
       (if input_info_of [] example_join = [] then None
        else Some (str_join [newline]
          ([''Join_1'' @ '' AS ('',
            ''    SELECT'',
            ''        '' @ str_join ('','' @ [newline] @ ''        '')
               (concat (map (\<lambda>(i, inp).
                    map (\<lambda>(source, target).
                           if source = target then ''T'' @ str_nat (i + 1) @ ''.'' @ source
                           else ''T'' @ str_nat (i + 1) @ ''.'' @ source @ '' AS '' @ target)
                      (mapping_pairs_of inp))
                  (filter (\<lambda>(i, inp). truthy (get inp ''node''))
                     (enumerate 0 (findall example_join ''input''))))),
            ''    '' @ fst (from_and_joins (join_type_of example_join) (join_attributes_of example_join)
                            (input_info_of [] example_join))]
           @ map (\<lambda>clause. ''    '' @ clause)
               (snd (from_and_joins (join_type_of example_join) (join_attributes_of example_join)
                       (input_info_of [] example_join)))
           @ [''),''])))"
      by blast
    then show ?thesis
      by (simp add: example_join_input_info example_join_inputs example_join_type
          example_join_attributes from_and_joins_star star_join_clause_def format_opt_def
          enumerate_eq_zip get_def truthy_def pairs1 pairs2 str_nat.simps digit_def)
  qed
  have p_inputs: "findall example_projection ''input'' =
      [Element ''input'' [(''node'', ''#Join_1'')] None
          [mapping_elem ''DATBI'' ''DATBI'', mapping_elem ''KTOPL'' ''ChartOfAccounts'']]"
    by (simp add: example_projection_def findall_def mapping_elem_def)
  have p_pairs: "mapping_pairs_of (Element ''input'' [(''node'', ''#Join_1'')] None
          [mapping_elem ''DATBI'' ''DATBI'', mapping_elem ''KTOPL'' ''ChartOfAccounts'']) =
        [(''DATBI'', ''DATBI''), (''KTOPL'', ''ChartOfAccounts'')]"
    by (simp add: mapping_pairs_of_def findall_def mapping_elem_def get_def truthy_def)
  have proj_block: "projection_view example_projection ''Projection_1'' =
       Inr (Some (str_join [newline]
         [''Projection_1 AS ('',
          ''    SELECT'',
          ''        J1.DATBI,'' @ [newline] @ ''        J1.KTOPL AS ChartOfAccounts'',
          ''    FROM Join_1 AS J1'',
          ''    WHERE'' @ [newline] @ ''        '' @ default_date_func @ '' <= J1.DATBI'',
          ''),'']))"
  proof -
    from entries have "projection_view example_projection ''Projection_1'' =
     (case findall example_projection ''input'' of
        [] \<Rightarrow> Inr None
      | proj_input # more_inputs \<Rightarrow>
          (case get proj_input ''node'' of
             None \<Rightarrow> Inl AttributeError
           | Some node_ref \<Rightarrow>
               (case where_clause_of example_projection ''J1''
                       (foldl (\<lambda>d (source, target). dict_set d target source) []
                          (mapping_pairs_of proj_input))
                       (calculated_attribs_of example_projection) of
                  Inl e \<Rightarrow> Inl e
                | Inr where_clause \<Rightarrow>
                    Inr (Some (str_join [newline]
                      ([''Projection_1'' @ '' AS ('',
                        ''    SELECT'',
                        ''        '' @ str_join ('','' @ [newline] @ ''        '')
                           (map (\<lambda>(source, target).
                                   if source = target then ''J1'' @ ''.'' @ source
                                   else ''J1'' @ ''.'' @ source @ '' AS '' @ target)
                              (mapping_pairs_of proj_input)),
                        ''    FROM '' @ lstrip node_ref ''#'' @ '' AS J1'']
                       @ (if where_clause \<noteq> [] then [''    '' @ where_clause] else [])
                       @ [''),'']))))))"
      by blast
    then show ?thesis
      by (simp add: p_inputs p_pairs get_def example_where_clause lstrip_def
          default_date_func_def)
  qed
  from lists join_block proj_block show ?thesis by simp
qed

section \<open>Views of an unknown kind\<close>

lemma example_union_type:
  "get example_union ''{http://www.w3.org/2001/XMLSchema-instance}type'' =
     Some ''Calculation:UnionView''"
  by (simp add: example_union_def get_def xsi_type_def)

text \<open>
  C8. A \<open>calculationView\<close> whose type is neither the join view nor the projection view
  appends no block and raises no error, and the loop goes on: the views before and
  after it are processed as if it were not there, and so is the file.
\<close>

theorem unknown_view_type_skipped:
  assumes "get calc_view ''{http://www.w3.org/2001/XMLSchema-instance}type'' \<noteq>
             Some ''Calculation:JoinView''"
      and "get calc_view ''{http://www.w3.org/2001/XMLSchema-instance}type'' \<noteq>
             Some ''Calculation:ProjectionView''"
  shows "calc_view_block dsd calc_view = Inr None
       \<and> views_loop dsd (before @ calc_view # after) blocks =
           views_loop dsd (before @ after) blocks
       \<and> (find_descendant root ''calculationViews'' = Some parent \<and>
          findall parent ''calculationView'' = before @ calc_view # after \<longrightarrow>
          process_file root =
            (case views_loop (data_sources_dict root) (before @ after) [] of
               Inl e \<Rightarrow> Inl e
             | Inr all_sql_blocks \<Rightarrow>
                 if all_sql_blocks = [] then Inr None
                 else Inr (Some (''WITH'' @ [newline, newline] @
                                 str_join [newline, newline] all_sql_blocks))))"
proof -
  have skip: "calc_view_block dsd calc_view = Inr None" for dsd
    using assms by (simp add: calc_view_block_def Let_def)
  have loop: "views_loop dsd (before @ calc_view # after) blocks =
          views_loop dsd (before @ after) blocks" for dsd blocks
    by (simp add: views_loop_append skip split: sum.splits)
  show ?thesis
    by (auto simp: skip loop process_file_views simp del: views_loop.simps)
qed

theorem unknown_view_type_skipped_witness:
  "calc_view_block [] example_union = Inr None
   \<and> views_loop [] ([example_join] @ example_union # [example_projection]) [] =
       views_loop [] ([example_join] @ [example_projection]) []
   \<and> process_file (example_document [] ([example_join] @ example_union # [example_projection])) =
       process_file (example_document [] ([example_join] @ [example_projection]))"
proof -
  let ?with = "example_document [] ([example_join] @ example_union # [example_projection])"
  let ?without = "example_document [] ([example_join] @ [example_projection])"
  let ?parent = "Element ''calculationViews'' [] None
                   ([example_join] @ example_union # [example_projection])"
  note skipped = unknown_view_type_skipped [of example_union "[]" "[example_join]"
      "[example_projection]" "[]" ?with ?parent]
  have tags: "tag example_join = ''calculationView''" "tag example_union = ''calculationView''"
    "tag example_projection = ''calculationView''"
    by (simp_all add: example_join_def example_union_def example_projection_def)
  have views: "findall ?parent ''calculationView'' =
                 [example_join] @ example_union # [example_projection]"
    by (simp add: findall_def tags)
  have "process_file ?with =
          (case views_loop [] ([example_join] @ [example_projection]) [] of
             Inl e \<Rightarrow> Inl e
           | Inr all_sql_blocks \<Rightarrow>
               if all_sql_blocks = [] then Inr None
               else Inr (Some (''WITH'' @ [newline, newline] @
                               str_join [newline, newline] all_sql_blocks)))"
    using skipped example_document_views [of "[example_join] @ example_union # [example_projection]"]
      views
    by (simp add: example_union_type example_document_sources del: views_loop.simps)
  moreover have "process_file ?without =
          (case views_loop [] ([example_join] @ [example_projection]) [] of
             Inl e \<Rightarrow> Inl e
           | Inr all_sql_blocks \<Rightarrow>
               if all_sql_blocks = [] then Inr None
               else Inr (Some (''WITH'' @ [newline, newline] @
                               str_join [newline, newline] all_sql_blocks)))"
    using process_file_views [OF example_document_views [of "[example_join] @ [example_projection]"]]
    by (simp add: findall_def tags example_document_sources del: views_loop.simps)
  ultimately have "process_file ?with = process_file ?without" by simp
  then show ?thesis
    using skipped by (simp add: example_union_type del: views_loop.simps)
qed

section \<open>The table of data sources\<close>

lemma map_of_dict_set:
  "map_of (dict_set d k v) k' = (if k' = k then Some v else map_of d k')"
  by (induction d) auto

lemma data_source_loop_lookup:
  "map_of (data_source_loop dss d) k =
     (case filter (\<lambda>ds. get ds ''id'' = k \<and> find_child ds ''columnObject'' \<noteq> None) dss of
        [] \<Rightarrow> map_of d k
      | x # xs \<Rightarrow> spec_table_name (last (x # xs)))"
proof (induction dss arbitrary: d)
  case Nil
  then show ?case by simp
next
  case (Cons ds dss)
  show ?case
  proof (cases "find_child ds ''columnObject''")
    case None
    then show ?thesis using Cons.IH [of d] by simp
  next
    case (Some column_obj)
    then show ?thesis
      using Cons.IH [of "dict_set d (get ds ''id'')
          (format_opt (get column_obj ''schemaName'') @ ''.'' @
           format_opt (get column_obj ''columnObjectName''))"]
      by (auto simp: Let_def map_of_dict_set spec_table_name_def split: list.splits)
  qed
qed

lemma filter_enumerate_snd:
  "map snd (filter (\<lambda>(i, x). P x) (enumerate n xs)) = filter P xs"
  by (induction xs arbitrary: n) auto

lemma input_tables:
  "map (\<lambda>info. fst (snd info)) (input_info_of dsd calc_view) =
     map (\<lambda>inp. case map_of dsd (Some (lstrip (the (get inp ''node'')) ''#'')) of
                   None \<Rightarrow> lstrip (the (get inp ''node'')) ''#''
                 | Some table \<Rightarrow> table)
       (filter (\<lambda>inp. truthy (get inp ''node'')) (findall calc_view ''input''))"
proof -
  have "map (\<lambda>info. fst (snd info)) (input_info_of dsd calc_view) =
        map ((\<lambda>inp. case map_of dsd (Some (lstrip (the (get inp ''node'')) ''#'')) of
                   None \<Rightarrow> lstrip (the (get inp ''node'')) ''#''
                 | Some table \<Rightarrow> table) \<circ> snd)
          (filter (\<lambda>(i, inp). truthy (get inp ''node'')) (enumerate 0 (findall calc_view ''input'')))"
    by (simp add: input_info_of_def input_loop_acc dict_get_def comp_def case_prod_beta)
  also have "\<dots> = map (\<lambda>inp. case map_of dsd (Some (lstrip (the (get inp ''node'')) ''#'')) of
                   None \<Rightarrow> lstrip (the (get inp ''node'')) ''#''
                 | Some table \<Rightarrow> table)
       (map snd (filter (\<lambda>(i, inp). truthy (get inp ''node'')) (enumerate 0 (findall calc_view ''input''))))"
    by simp
  finally show ?thesis by (simp only: filter_enumerate_snd)
qed

lemma example_duplicate_sources:
  "data_source_elements example_duplicate_document =
     [example_source_first, example_source_bare, example_source_second]"
  by (simp add: example_duplicate_document_def example_document_def data_source_elements_def
      find_child_def findall_def example_source_first_def example_source_bare_def
      example_source_second_def)

lemma example_duplicate_table:
  "data_sources_dict example_duplicate_document = [(Some ''CSKB'', ''SAPABAP2.CSKB'')]"
  by (simp add: example_duplicate_document_def example_document_def data_sources_dict_def
      find_child_def findall_def example_source_first_def example_source_bare_def
      example_source_second_def get_def format_opt_def)

text \<open>
  C7, as the specification states it, fails where two \<open>DataSource\<close> elements share an
  id: \<open>example_source_first\<close> has the id \<open>CSKB\<close> and the column object
  \<open>SAPABAP1.CSKB\<close>, but the table maps \<open>CSKB\<close> to \<open>SAPABAP2.CSKB\<close>, the name of the
  later element with the same id.
\<close>

theorem data_source_table_counterexample:
  "example_source_first \<in> set (data_source_elements example_duplicate_document)
   \<and> get example_source_first ''id'' = Some ''CSKB''
   \<and> spec_table_name example_source_first = Some ''SAPABAP1.CSKB''
   \<and> map_of (data_sources_dict example_duplicate_document) (Some ''CSKB'') =
       Some ''SAPABAP2.CSKB''"
  by (simp add: example_duplicate_sources example_duplicate_table)
     (simp add: example_source_first_def get_def spec_table_name_def find_child_def findall_def
        format_opt_def)

text \<open>
  C7, amended. The table maps an id to \<open>schemaName.columnObjectName\<close> of the last
  \<open>DataSource\<close> element that has this id and a \<open>columnObject\<close> child (so to the
  element's own name when no later one repeats its id), and has no entry for an id
  that no \<open>DataSource\<close> with a \<open>columnObject\<close> child carries. The table reference of a
  retained join input is the entry of its id in the table, and the id itself when
  the table has no entry for it; the table reference of the input of a projection
  view, in the FROM clause of its block, is the id itself.
\<close>

theorem data_source_table_last_wins:
  "map_of (data_sources_dict root) (Some ds_id) =
     (case filter (\<lambda>ds. get ds ''id'' = Some ds_id \<and> find_child ds ''columnObject'' \<noteq> None)
             (data_source_elements root) of
        [] \<Rightarrow> None
      | x # xs \<Rightarrow> spec_table_name (last (x # xs)))
   \<and> map (\<lambda>info. fst (snd info)) (input_info_of (data_sources_dict root) calc_view) =
       map (\<lambda>inp. case map_of (data_sources_dict root)
                          (Some (lstrip (the (get inp ''node'')) ''#'')) of
                     None \<Rightarrow> lstrip (the (get inp ''node'')) ''#''
                   | Some table \<Rightarrow> table)
         (filter (\<lambda>inp. truthy (get inp ''node'')) (findall calc_view ''input''))
   \<and> (findall calc_view' ''input'' = proj_input # more_inputs \<and>
      get proj_input ''node'' = Some node_ref \<longrightarrow>
      projection_view calc_view' view_id =
        (case where_clause_of calc_view' ''J1''
                (foldl (\<lambda>d (source, target). dict_set d target source) []
                   (mapping_pairs_of proj_input))
                (calculated_attribs_of calc_view') of
           Inl e \<Rightarrow> Inl e
         | Inr where_clause \<Rightarrow>
             Inr (Some (str_join [newline]
               ([view_id @ '' AS ('',
                 ''    SELECT'',
                 ''        '' @ str_join ('','' @ [newline] @ ''        '')
                    (map (\<lambda>(source, target). select_column ''J1'' source target)
                       (mapping_pairs_of proj_input)),
                 ''    FROM '' @ lstrip node_ref ''#'' @ '' AS J1'']
                @ (if where_clause \<noteq> [] then [''    '' @ where_clause] else [])
                @ [''),''])))))"
proof (intro conjI impI)
  show "map_of (data_sources_dict root) (Some ds_id) =
     (case filter (\<lambda>ds. get ds ''id'' = Some ds_id \<and> find_child ds ''columnObject'' \<noteq> None)
             (data_source_elements root) of
        [] \<Rightarrow> None
      | x # xs \<Rightarrow> spec_table_name (last (x # xs)))"
    by (cases "find_child root ''dataSources''")
       (simp_all add: data_sources_dict_def data_source_elements_def data_source_loop_lookup
          split: list.splits)
next
  show "map (\<lambda>info. fst (snd info)) (input_info_of (data_sources_dict root) calc_view) =
       map (\<lambda>inp. case map_of (data_sources_dict root)
                          (Some (lstrip (the (get inp ''node'')) ''#'')) of
                     None \<Rightarrow> lstrip (the (get inp ''node'')) ''#''
                   | Some table \<Rightarrow> table)
         (filter (\<lambda>inp. truthy (get inp ''node'')) (findall calc_view ''input''))"
    by (rule input_tables)
next
  assume "findall calc_view' ''input'' = proj_input # more_inputs \<and>
          get proj_input ''node'' = Some node_ref"
  then have inputs: "findall calc_view' ''input'' = proj_input # more_inputs"
    and node: "get proj_input ''node'' = Some node_ref"
    by simp_all
  show "projection_view calc_view' view_id =
        (case where_clause_of calc_view' ''J1''
                (foldl (\<lambda>d (source, target). dict_set d target source) []
                   (mapping_pairs_of proj_input))
                (calculated_attribs_of calc_view') of
           Inl e \<Rightarrow> Inl e
         | Inr where_clause \<Rightarrow>
             Inr (Some (str_join [newline]
               ([view_id @ '' AS ('',
                 ''    SELECT'',
                 ''        '' @ str_join ('','' @ [newline] @ ''        '')
                    (map (\<lambda>(source, target). select_column ''J1'' source target)
                       (mapping_pairs_of proj_input)),
                 ''    FROM '' @ lstrip node_ref ''#'' @ '' AS J1'']
                @ (if where_clause \<noteq> [] then [''    '' @ where_clause] else [])
                @ [''),'']))))"
    using projection_view_unfolded [OF inputs node, of view_id]
    by (simp add: projection_select_loop_fst projection_select_loop_snd sql_block_def
        split: sum.splits)
qed

theorem data_source_table_last_wins_witness:
  "map_of (data_sources_dict example_duplicate_document) (Some ''CSKB'') = Some ''SAPABAP2.CSKB''
   \<and> map_of (data_sources_dict example_duplicate_document) (Some ''CSKU'') = None
   \<and> map (\<lambda>info. fst (snd info))
         (input_info_of (data_sources_dict example_duplicate_document) example_join_dropped) =
       [''SAPABAP2.CSKB'', ''CSKU'']
   \<and> map_of (data_sources_dict example_duplicate_document) (Some ''Join_1'') = None
   \<and> projection_view example_projection ''Projection_1'' =
       Inr (Some (str_join [newline]
         [''Projection_1 AS ('',
          ''    SELECT'',
          ''        J1.DATBI,'' @ [newline] @ ''        J1.KTOPL AS ChartOfAccounts'',
          ''    FROM Join_1 AS J1'',
          ''    WHERE'' @ [newline] @ ''        '' @ default_date_func @ '' <= J1.DATBI'',
          ''),'']))"
proof -
  let ?inp = "Element ''input'' [(''node'', ''#Join_1'')] None
          [mapping_elem ''DATBI'' ''DATBI'', mapping_elem ''KTOPL'' ''ChartOfAccounts'']"
  note cskb = data_source_table_last_wins [of example_duplicate_document "''CSKB''"
      example_join_dropped example_projection ?inp "[]" "''#Join_1''" "''Projection_1''"]
  note csku = data_source_table_last_wins [of example_duplicate_document "''CSKU''"
      example_join_dropped example_projection ?inp "[]" "''#Join_1''" "''Projection_1''"]
  have tables: "map_of (data_sources_dict example_duplicate_document) (Some ''CSKB'') =
       Some ''SAPABAP2.CSKB''
   \<and> map_of (data_sources_dict example_duplicate_document) (Some ''CSKU'') = None
   \<and> map (\<lambda>info. fst (snd info))
         (input_info_of (data_sources_dict example_duplicate_document) example_join_dropped) =
       [''SAPABAP2.CSKB'', ''CSKU'']"
    using cskb csku
    by (simp add: example_duplicate_sources example_duplicate_table example_source_first_def
        example_source_bare_def example_source_second_def example_join_dropped_def
        mapping_elem_def xsi_type_def get_def find_child_def findall_def spec_table_name_def
        format_opt_def truthy_def lstrip_def)
  have absent: "map_of (data_sources_dict example_duplicate_document) (Some ''Join_1'') = None"
    by (simp add: example_duplicate_table)
  have p_inputs: "findall example_projection ''input'' = ?inp # []"
    by (simp add: example_projection_def findall_def mapping_elem_def)
  have p_node: "get ?inp ''node'' = Some ''#Join_1''"
    by (simp add: get_def)
  have p_pairs: "mapping_pairs_of ?inp =
        [(''DATBI'', ''DATBI''), (''KTOPL'', ''ChartOfAccounts'')]"
    by (simp add: mapping_pairs_of_def findall_def mapping_elem_def get_def truthy_def)
  have "projection_view example_projection ''Projection_1'' =
        (case where_clause_of example_projection ''J1''
                (foldl (\<lambda>d (source, target). dict_set d target source) []
                   (mapping_pairs_of ?inp))
                (calculated_attribs_of example_projection) of
           Inl e \<Rightarrow> Inl e
         | Inr where_clause \<Rightarrow>
             Inr (Some (str_join [newline]
               ([''Projection_1'' @ '' AS ('',
                 ''    SELECT'',
                 ''        '' @ str_join ('','' @ [newline] @ ''        '')
                    (map (\<lambda>(source, target). select_column ''J1'' source target)
                       (mapping_pairs_of ?inp)),
                 ''    FROM '' @ lstrip ''#Join_1'' ''#'' @ '' AS J1'']
                @ (if where_clause \<noteq> [] then [''    '' @ where_clause] else [])
                @ [''),'']))))"
    using cskb p_inputs p_node by blast
  then have block: "projection_view example_projection ''Projection_1'' =
       Inr (Some (str_join [newline]
         [''Projection_1 AS ('',
          ''    SELECT'',
          ''        J1.DATBI,'' @ [newline] @ ''        J1.KTOPL AS ChartOfAccounts'',
          ''    FROM Join_1 AS J1'',
          ''    WHERE'' @ [newline] @ ''        '' @ default_date_func @ '' <= J1.DATBI'',
          ''),'']))"
    by (simp add: p_pairs example_where_clause lstrip_def select_column_def
        default_date_func_def)
  from tables absent block show ?thesis by simp
qed

section \<open>Aliases of join inputs\<close>

text \<open>
  C2. The specification numbers the aliases by position among the retained inputs.
  The code takes the index of \<open>enumerate(inputs)\<close>, which counts the inputs it passes
  over too: with three inputs of which the first has no \<open>node\<close>, the two retained
  inputs get the aliases \<open>T2\<close> and \<open>T3\<close>, not \<open>T1\<close> and \<open>T2\<close>.
\<close>

theorem join_alias_document_position:
  "map fst (input_info_of [] example_join_dropped) = [''T2'', ''T3'']
   \<and> map (\<lambda>info. fst (snd info)) (input_info_of [] example_join_dropped) = [''CSKB'', ''CSKU'']"
  by (simp add: example_join_dropped_def mapping_elem_def xsi_type_def input_info_of_def
      findall_def get_def enumerate_eq_zip truthy_def lstrip_def str_nat.simps digit_def
      dict_get_def mapping_pairs_of_def)

section \<open>Views without a usable input\<close>

lemma join_without_inputs_skipped:
  "input_info_of dsd calc_view = [] \<Longrightarrow> join_view dsd calc_view view_id = None"
  by (simp add: join_view_def)

lemma projection_without_inputs_skipped:
  "findall calc_view ''input'' = [] \<Longrightarrow> projection_view calc_view view_id = Inr None"
  by (simp add: projection_view_def)

text \<open>
  C4. A join view without a retained input and a projection view without an \<open>input\<close>
  child are passed over (the two lemmas above). A projection view whose input has no
  \<open>node\<close> is not: \<open>node_ref.lstrip\<close> raises, and \<open>process_file\<close> ends with the error.
\<close>

theorem projection_without_node_raises:
  "findall example_projection_no_node ''input'' \<noteq> []
   \<and> calc_view_block [] example_projection_no_node = Inl AttributeError
   \<and> process_file (example_document [] [example_projection_no_node]) = Inl AttributeError"
  by (simp add: example_projection_no_node_def example_document_def mapping_elem_def xsi_type_def
      process_file_def data_sources_dict_def find_descendant_def find_child_def findall_def
      calc_view_block_def projection_view_def get_def get_default_def Let_def)

section \<open>The filter of a projection view\<close>

text \<open>
  C10, as stated, fails for a projection view whose input has no \<open>node\<close>: with a
  filter of white space only it has an input child and a filter text that strips to
  the empty string, yet the view raises instead of giving a block.
\<close>

theorem projection_filter_text_counterexample:
  "findall example_projection_no_node_blank_filter ''input'' \<noteq> []
   \<and> map_option elem_text (find_child example_projection_no_node_blank_filter ''filter'') =
       Some (Some ''  '')
   \<and> ''  '' \<noteq> [] \<and> strip ''  '' = []
   \<and> calc_view_block [] example_projection_no_node_blank_filter = Inl AttributeError"
  by (simp add: example_projection_no_node_blank_filter_def mapping_elem_def xsi_type_def
      find_child_def findall_def strip_def isspace_def calc_view_block_def projection_view_def
      get_def get_default_def Let_def)

text \<open>
  C10, amended. For a projection view whose first input has a \<open>node\<close> attribute: when
  its (first) \<open>filter\<close> element has no text, processing the view raises, and so do
  the loop over the views and \<open>process_file\<close> once they reach the view; when the text
  of the filter strips to the empty string, the view gives its block without a WHERE
  clause.
\<close>

theorem projection_filter_text:
  assumes "findall calc_view ''input'' = proj_input # more_inputs"
      and "get proj_input ''node'' = Some node_ref"
      and "find_child calc_view ''filter'' = Some filter_node"
      and "get calc_view ''{http://www.w3.org/2001/XMLSchema-instance}type'' =
             Some ''Calculation:ProjectionView''"
  shows "(elem_text filter_node = None \<longrightarrow>
            calc_view_block dsd calc_view = Inl AttributeError
          \<and> (\<forall>before after blocks blocks'.
                views_loop dsd before blocks = Inr blocks' \<longrightarrow>
                views_loop dsd (before @ calc_view # after) blocks = Inl AttributeError)
          \<and> (\<forall>root parent before after blocks'.
                find_descendant root ''calculationViews'' = Some parent \<and>
                findall parent ''calculationView'' = before @ calc_view # after \<and>
                views_loop (data_sources_dict root) before [] = Inr blocks' \<longrightarrow>
                process_file root = Inl AttributeError))
       \<and> (\<forall>t. elem_text filter_node = Some t \<and> strip t = [] \<longrightarrow>
            calc_view_block dsd calc_view =
              Inr (Some (str_join [newline]
                [get_default calc_view ''id'' ''UnknownView'' @ '' AS ('',
                 ''    SELECT'',
                 ''        '' @ str_join ('','' @ [newline] @ ''        '')
                    (map (\<lambda>(source, target). select_column ''J1'' source target)
                       (mapping_pairs_of proj_input)),
                 ''    FROM '' @ lstrip node_ref ''#'' @ '' AS J1'',
                 ''),''])))"
proof (intro conjI impI allI)
  assume none: "elem_text filter_node = None"
  have "where_clause_of calc_view ''J1'' m c = Inl AttributeError" for m c
    using assms(3) none by (simp add: where_clause_of_def)
  then have "projection_view calc_view view_id = Inl AttributeError" for view_id
    using projection_view_unfolded [OF assms(1,2)] by simp
  then have raise: "calc_view_block dsd calc_view = Inl AttributeError" for dsd
    using assms(4) by (simp add: calc_view_block_def Let_def)
  then show "calc_view_block dsd calc_view = Inl AttributeError" .
  have loop: "views_loop dsd (before @ calc_view # after) blocks = Inl AttributeError"
    if "views_loop dsd before blocks = Inr blocks'" for dsd before after blocks blocks'
    using that raise by (simp add: views_loop_append)
  {
    fix before after blocks blocks'
    assume "views_loop dsd before blocks = Inr blocks'"
    then show "views_loop dsd (before @ calc_view # after) blocks = Inl AttributeError"
      by (rule loop)
  }
  {
    fix root parent before after blocks'
    assume h: "find_descendant root ''calculationViews'' = Some parent \<and>
               findall parent ''calculationView'' = before @ calc_view # after \<and>
               views_loop (data_sources_dict root) before [] = Inr blocks'"
    then have "views_loop (data_sources_dict root) (findall parent ''calculationView'') [] =
                 Inl AttributeError"
      using loop [of "data_sources_dict root" before "[]" blocks' after] by simp
    with h show "process_file root = Inl AttributeError"
      by (simp add: process_file_views)
  }
next
  fix t
  assume blank: "elem_text filter_node = Some t \<and> strip t = []"
  have "where_clause_of calc_view ''J1'' m c = Inr []" for m c
    using assms(3) blank
    by (simp add: where_clause_of_def replace_filter_expressions_def)
  then have "projection_view calc_view view_id =
      Inr (Some (sql_block view_id
                 (fst (projection_select_loop ''J1'' (mapping_pairs_of proj_input) ([], [])))
                 (''FROM '' @ lstrip node_ref ''#'' @ '' AS J1'') []))" for view_id
    using projection_view_unfolded [OF assms(1,2)] by simp
  then show "calc_view_block dsd calc_view =
              Inr (Some (str_join [newline]
                [get_default calc_view ''id'' ''UnknownView'' @ '' AS ('',
                 ''    SELECT'',
                 ''        '' @ str_join ('','' @ [newline] @ ''        '')
                    (map (\<lambda>(source, target). select_column ''J1'' source target)
                       (mapping_pairs_of proj_input)),
                 ''    FROM '' @ lstrip node_ref ''#'' @ '' AS J1'',
                 ''),'']))"
    using assms(4)
    by (simp add: calc_view_block_def Let_def sql_block_def projection_select_loop_fst)
qed

theorem projection_filter_text_witness:
  "calc_view_block [] example_projection_empty_filter = Inl AttributeError
   \<and> views_loop [] ([] @ example_projection_empty_filter # [example_projection]) [] =
       Inl AttributeError
   \<and> process_file (example_document []
         ([] @ example_projection_empty_filter # [example_projection])) = Inl AttributeError
   \<and> calc_view_block [] example_projection_blank_filter =
       Inr (Some (str_join [newline]
         [''Projection_5 AS ('',
          ''    SELECT'',
          ''        J1.DATBI'',
          ''    FROM Join_1 AS J1'',
          ''),'']))"
proof -
  let ?inp = "Element ''input'' [(''node'', ''#Join_1'')] None [mapping_elem ''DATBI'' ''DATBI'']"
  have node: "get ?inp ''node'' = Some ''#Join_1''"
    by (simp add: get_def)
  have pairs: "mapping_pairs_of ?inp = [(''DATBI'', ''DATBI'')]"
    by (simp add: mapping_pairs_of_def findall_def mapping_elem_def get_def truthy_def)
  have e_inputs: "findall example_projection_empty_filter ''input'' = ?inp # []"
    by (simp add: example_projection_empty_filter_def findall_def mapping_elem_def)
  have e_filter: "find_child example_projection_empty_filter ''filter'' =
                    Some (Element ''filter'' [] None [])"
    by (simp add: example_projection_empty_filter_def find_child_def findall_def mapping_elem_def)
  have e_type: "get example_projection_empty_filter
                  ''{http://www.w3.org/2001/XMLSchema-instance}type'' =
                  Some ''Calculation:ProjectionView''"
    by (simp add: example_projection_empty_filter_def get_def xsi_type_def)
  have b_inputs: "findall example_projection_blank_filter ''input'' = ?inp # []"
    by (simp add: example_projection_blank_filter_def findall_def mapping_elem_def)
  have b_filter: "find_child example_projection_blank_filter ''filter'' =
                    Some (Element ''filter'' [] (Some ('' '' @ [newline] @ ''  '')) [])"
    by (simp add: example_projection_blank_filter_def find_child_def findall_def mapping_elem_def)
  have b_type: "get example_projection_blank_filter
                  ''{http://www.w3.org/2001/XMLSchema-instance}type'' =
                  Some ''Calculation:ProjectionView''"
    by (simp add: example_projection_blank_filter_def get_def xsi_type_def)
  have b_id: "get_default example_projection_blank_filter ''id'' ''UnknownView'' = ''Projection_5''"
    by (simp add: example_projection_blank_filter_def get_default_def get_def xsi_type_def)
  have blank: "strip ('' '' @ [newline] @ ''  '') = []"
    by (simp add: strip_def isspace_def newline_def)
  note empty_case = projection_filter_text [OF e_inputs node e_filter e_type, of "[]"]
  note blank_case = projection_filter_text [OF b_inputs node b_filter b_type, of "[]"]
  have "calc_view_block [] example_projection_empty_filter = Inl AttributeError"
    using empty_case by simp
  moreover have "views_loop [] ([] @ example_projection_empty_filter # [example_projection]) [] =
                   Inl AttributeError"
  proof -
    have "views_loop [] [] [] = Inr []" by simp
    with empty_case show ?thesis by (metis element.sel(3))
  qed
  moreover have "process_file (example_document []
         ([] @ example_projection_empty_filter # [example_projection])) = Inl AttributeError"
  proof -
    let ?views = "[] @ example_projection_empty_filter # [example_projection]"
    have "tag example_projection_empty_filter = ''calculationView''"
      "tag example_projection = ''calculationView''"
      by (simp_all add: example_projection_empty_filter_def example_projection_def)
    then have "findall (Element ''calculationViews'' [] None ?views) ''calculationView'' = ?views"
      by (simp add: findall_def)
    moreover have "views_loop (data_sources_dict (example_document [] ?views)) [] [] = Inr []"
      by simp
    moreover note example_document_views [of ?views]
    ultimately show ?thesis using empty_case by (metis element.sel(3))
  qed
  moreover have "calc_view_block [] example_projection_blank_filter =
       Inr (Some (str_join [newline]
         [''Projection_5 AS ('',
          ''    SELECT'',
          ''        J1.DATBI'',
          ''    FROM Join_1 AS J1'',
          ''),'']))"
    using blank_case blank
    by (simp add: b_id pairs lstrip_def select_column_def)
  ultimately show ?thesis by simp
qed

end
